theory Spec2Isabelle
  imports Main "HOL-Library.AList"
begin

section \<open>Connector registry (app.py)\<close>

text \<open>
  Python strings are modelled as \<open>string\<close> (a list of bytes). \<open>str.lower()\<close> is
  modelled on the ASCII letters, the only characters the registered identifiers are
  written in; bytes outside \<open>A..Z\<close> are left as they are.
\<close>

datatype exn =
    ValueError string
  | KeyError string
  | RequestException string
  | VendorException string
  | PlainException string

definition upper_letters :: string where
  "upper_letters = ''ABCDEFGHIJKLMNOPQRSTUVWXYZ''"

definition lower_letters :: string where
  "lower_letters = ''abcdefghijklmnopqrstuvwxyz''"

definition is_upper :: "char \<Rightarrow> bool" where
  "is_upper c = (c \<in> set upper_letters)"

definition lower_char :: "char \<Rightarrow> char" where
  "lower_char c = (case map_of (zip upper_letters lower_letters) c of
                     None \<Rightarrow> c | Some l \<Rightarrow> l)"

definition lower :: "string \<Rightarrow> string" where
  "lower s = map lower_char s"

datatype connector_class =
    SalesforceConnector
  | GoogleAdsConnector
  | GA4Connector
  | MetaAdsConnector
  | GoogleSheetsConnector
  | HubspotConnector

text \<open>
  \<open>CONNECTORS_AVAILABLE\<close> is the module-level flag set by the guarded import block;
  the registry is the literal dictionary when the flag holds and empty otherwise.
\<close>

definition CONNECTOR_REGISTRY :: "bool \<Rightarrow> (string \<times> connector_class) list" where
  "CONNECTOR_REGISTRY CONNECTORS_AVAILABLE =
     (if CONNECTORS_AVAILABLE then
        [(''salesforce'', SalesforceConnector),
         (''google_ads'', GoogleAdsConnector),
         (''ga4'', GA4Connector),
         (''meta_ads'', MetaAdsConnector),
         (''google_sheets'', GoogleSheetsConnector),
         (''hubspot'', HubspotConnector)]
      else [])"

definition get_connector :: "bool \<Rightarrow> string \<Rightarrow> exn + connector_class" where
  "get_connector CONNECTORS_AVAILABLE connector_type =
     (if \<not> CONNECTORS_AVAILABLE then
        Inl (ValueError ''Connector registry is not available due to import errors.'')
      else
        (case map_of (CONNECTOR_REGISTRY CONNECTORS_AVAILABLE) (lower connector_type) of
           None \<Rightarrow> Inl (ValueError (''Unsupported connector type: '' @ connector_type))
         | Some connector_class \<Rightarrow> Inr connector_class))"

text \<open>
  The reading of "the same identifier in another letter casing" used to state the
  registry property: position by position, the character is the identifier's own or
  the upper-case form of it.
\<close>

definition case_variant :: "char \<Rightarrow> char \<Rightarrow> bool" where
  "case_variant a b = (a = b \<or> (is_upper a \<and> lower_char a = b))"

definition casing_of :: "string \<Rightarrow> string \<Rightarrow> bool" where
  "casing_of s v = list_all2 case_variant s v"

section \<open>Connector instances and their environment\<close>

text \<open>
  The vendor modules are classes over a common base. An instance is modelled with the
  attributes the modelled methods read or write, together with the three collaborators
  every method uses: the clock (\<open>now\<close>, in microseconds, the resolution of
  \<open>datetime\<close>), the logger (\<open>log\<close>, level and message, in order) and the
  transport (\<open>sent\<close>, the requests handed to the HTTP session or the vendor client
  library, in order). \<open>time.sleep d\<close> advances the clock by \<open>d\<close>.
\<close>

datatype level = DEBUG | INFO | WARNING | ERROR

datatype jval =
    JNull
  | JBool bool
  | JNum int
  | JStr string
  | JArr "jval list"
  | JObj "(string \<times> jval) list"

type_synonym jdict = "(string \<times> jval) list"

datatype request = Request (meth: string) (url: string) (payload: jdict)

datatype auth_type = Token | Password | Unauthenticated

record connector =
  credentials :: "(string \<times> string) list"
  rate_limit_config :: "(string \<times> int) list"
  instance_url :: "string option"
  api_version :: string
  access_token :: "string option"
  refresh_token :: "string option"
  client_id :: "string option"
  client_secret :: "string option"
  auth_type :: auth_type
  authorization :: "string option"
  client :: bool
  property_id :: "string option"
  last_request_time :: "int option"
  request_count :: nat
  now :: int
  log :: "(level \<times> string) list"
  sent :: "request list"

definition logmsg :: "level \<Rightarrow> string \<Rightarrow> connector \<Rightarrow> connector" where
  "logmsg l m c = c\<lparr>log := log c @ [(l, m)]\<rparr>"

definition sleep :: "int \<Rightarrow> connector \<Rightarrow> connector" where
  "sleep d c = c\<lparr>now := now c + d\<rparr>"

text \<open>Python truthiness of an optional string: \<open>None\<close> and \<open>''\<close> are false.\<close>

definition truthy :: "string option \<Rightarrow> bool" where
  "truthy v = (case v of None \<Rightarrow> False | Some s \<Rightarrow> s \<noteq> [])"

text \<open>\<open>str(v)\<close> inside an f-string, for an optional string.\<close>

definition str_opt :: "string option \<Rightarrow> string" where
  "str_opt v = (case v of None \<Rightarrow> ''None'' | Some s \<Rightarrow> s)"

definition jstr_opt :: "string option \<Rightarrow> jval" where
  "jstr_opt v = (case v of None \<Rightarrow> JNull | Some s \<Rightarrow> JStr s)"

definition cfg_get :: "connector \<Rightarrow> string \<Rightarrow> int \<Rightarrow> int" where
  "cfg_get c k d = (case map_of (rate_limit_config c) k of None \<Rightarrow> d | Some v \<Rightarrow> v)"

text \<open>\<open>dict.setdefault\<close> on the rate-limit configuration.\<close>

definition setdefault :: "string \<Rightarrow> int \<Rightarrow> (string \<times> int) list \<Rightarrow> (string \<times> int) list" where
  "setdefault k v cfg = (case map_of cfg k of None \<Rightarrow> cfg @ [(k, v)] | Some _ \<Rightarrow> cfg)"

section \<open>Rate limiting (handle\_rate\_limits of each vendor module)\<close>

text \<open>
  Durations are integers in microseconds: \<open>0.1\<close> s is \<open>100000\<close>, \<open>0.11\<close> s is
  \<open>110000\<close>, \<open>5\<close> s is \<open>5000000\<close> and \<open>100\<close> s is \<open>100000000\<close>. The
  configuration values \<open>min_request_interval\<close> are held in the same unit.
\<close>

definition sf_handle_rate_limits :: "connector \<Rightarrow> connector" where
  "sf_handle_rate_limits c =
     (if request_count c \<ge> 100 then (sleep 5000000 c)\<lparr>request_count := 0\<rparr>
      else
        let c1 = (case last_request_time c of
                    None \<Rightarrow> c
                  | Some t \<Rightarrow>
                      let elapsed = now c - t
                      in if elapsed < 100000 then sleep (100000 - elapsed) c else c)
        in c1\<lparr>last_request_time := Some (now c1), request_count := request_count c1 + 1\<rparr>)"

definition hs_handle_rate_limits :: "connector \<Rightarrow> connector" where
  "hs_handle_rate_limits c = sleep 110000 c"

text \<open>
  The GA4, Google Ads and Google Sheets modules share the spacing step: the clock is
  read once on entry (\<open>current_time\<close>), and that reading is what is stored as
  \<open>last_request_time\<close> after the sleep.
\<close>

definition spacing_step :: "int \<Rightarrow> connector \<Rightarrow> connector" where
  "spacing_step default_interval c =
     (let current_time = now c;
          c1 = (case last_request_time c of
                  None \<Rightarrow> c
                | Some t \<Rightarrow>
                    let elapsed = current_time - t;
                        min_interval = cfg_get c ''min_request_interval'' default_interval
                    in if elapsed < min_interval
                       then sleep (min_interval - elapsed)
                              (logmsg DEBUG ''Rate limiting: sleeping'' c)
                       else c)
      in c1\<lparr>last_request_time := Some current_time, request_count := request_count c1 + 1\<rparr>)"

definition ga4_handle_rate_limits :: "connector \<Rightarrow> connector" where
  "ga4_handle_rate_limits c =
     (let c1 = spacing_step 100000 c
      in if request_count c1 mod 50 = 0
         then logmsg INFO ''Processed GA4 API requests'' c1 else c1)"

definition gads_handle_rate_limits :: "connector \<Rightarrow> connector" where
  "gads_handle_rate_limits c =
     (let c1 = spacing_step 100000 c
      in if request_count c1 mod 100 = 0
         then logmsg INFO ''Processed API operations'' c1 else c1)"

definition gs_handle_rate_limits :: "connector \<Rightarrow> connector" where
  "gs_handle_rate_limits c =
     (let c1 = spacing_step 1000000 c
      in if int (request_count c1) \<ge> cfg_get c1 ''requests_per_100_seconds'' 100
         then (sleep 100000000 (logmsg INFO ''Rate limit reached, waiting 100 seconds'' c1))
                \<lparr>request_count := 0\<rparr>
         else c1)"

text \<open>
  The caller's time between two invocations: the clock moves on by \<open>d\<close> while the
  connector does something else.
\<close>

definition elapse :: "int \<Rightarrow> connector \<Rightarrow> connector" where
  "elapse d c = c\<lparr>now := now c + d\<rparr>"

section \<open>Construction of connector instances\<close>

text \<open>
  Modelled from the spec: \<open>BaseAPIConnector.__init__\<close> is not among the source
  files. Following the data model of the specification (the credentials and the
  rate-limit configuration are owned by the instance, defaults are applied when the
  configuration is absent) it stores the credentials and the given configuration, an
  absent configuration being the empty dictionary. The attributes a vendor module does
  not have stay at their initial values. The clock reading at construction is a
  parameter, and so are the two environment variables the Salesforce module reads.
\<close>

definition BaseAPIConnector_init ::
  "(string \<times> string) list \<Rightarrow> (string \<times> int) list option \<Rightarrow> int \<Rightarrow> connector" where
  "BaseAPIConnector_init creds rlc t =
     \<lparr>credentials = creds,
      rate_limit_config = (case rlc of None \<Rightarrow> [] | Some r \<Rightarrow> r),
      instance_url = None, api_version = [], access_token = None, refresh_token = None,
      client_id = None, client_secret = None, auth_type = Unauthenticated,
      authorization = None, client = False, property_id = None,
      last_request_time = None, request_count = 0, now = t, log = [], sent = []\<rparr>"

definition has_key :: "string \<Rightarrow> (string \<times> 'v) list \<Rightarrow> bool" where
  "has_key k d = (map_of d k \<noteq> None)"

definition SalesforceConnector_init ::
  "(string \<times> string) list \<Rightarrow> (string \<times> int) list option \<Rightarrow> string option \<Rightarrow> string option
     \<Rightarrow> int \<Rightarrow> connector" where
  "SalesforceConnector_init creds rlc env_client_id env_client_secret t =
     (BaseAPIConnector_init creds rlc t)
       \<lparr>instance_url := map_of creds ''instance_url'',
        api_version := (case map_of creds ''api_version'' of None \<Rightarrow> ''57.0'' | Some v \<Rightarrow> v),
        access_token := map_of creds ''access_token'',
        refresh_token := map_of creds ''refresh_token'',
        client_id := env_client_id,
        client_secret := env_client_secret,
        auth_type := (if has_key ''access_token'' creds then Token
                      else if has_key ''username'' creds \<and> has_key ''password'' creds then Password
                      else Unauthenticated),
        authorization := (if has_key ''access_token'' creds
                          then Some (''Bearer '' @ str_opt (map_of creds ''access_token''))
                          else None)\<rparr>"

definition HubspotConnector_init ::
  "(string \<times> string) list \<Rightarrow> (string \<times> int) list option \<Rightarrow> int \<Rightarrow> connector" where
  "HubspotConnector_init creds rlc t =
     (BaseAPIConnector_init creds rlc t)
       \<lparr>access_token := map_of creds ''access_token'',
        refresh_token := map_of creds ''refresh_token'',
        authorization := (if truthy (map_of creds ''access_token'')
                          then Some (''Bearer '' @ str_opt (map_of creds ''access_token''))
                          else None)\<rparr>"

definition startswith :: "string \<Rightarrow> string \<Rightarrow> bool" where
  "startswith s p = (take (length p) s = p)"

definition GA4Connector_init ::
  "(string \<times> string) list \<Rightarrow> (string \<times> int) list option \<Rightarrow> int \<Rightarrow> connector" where
  "GA4Connector_init creds rlc t =
     (let c = BaseAPIConnector_init creds rlc t;
          pid = map_of creds ''property_id''
      in c\<lparr>property_id := (if truthy pid \<and> \<not> startswith (str_opt pid) ''properties/''
                             then Some (''properties/'' @ str_opt pid) else pid),
            client_id := map_of creds ''client_id'',
            client_secret := map_of creds ''client_secret'',
            refresh_token := map_of creds ''refresh_token'',
            access_token := map_of creds ''access_token'',
            rate_limit_config :=
              setdefault ''min_request_interval'' 100000
                (setdefault ''tokens_per_hour'' 250
                  (setdefault ''tokens_per_day'' 25000 (rate_limit_config c)))\<rparr>)"

definition GoogleAdsConnector_init ::
  "(string \<times> string) list \<Rightarrow> (string \<times> int) list option \<Rightarrow> int \<Rightarrow> connector" where
  "GoogleAdsConnector_init creds rlc t =
     (let c = BaseAPIConnector_init creds rlc t
      in c\<lparr>client_id := map_of creds ''client_id'',
            client_secret := map_of creds ''client_secret'',
            refresh_token := map_of creds ''refresh_token'',
            access_token := map_of creds ''access_token'',
            rate_limit_config :=
              setdefault ''min_request_interval'' 100000
                (setdefault ''operations_per_day'' 15000 (rate_limit_config c))\<rparr>)"

definition GoogleSheetsConnector_init ::
  "(string \<times> string) list \<Rightarrow> (string \<times> int) list option \<Rightarrow> int \<Rightarrow> connector" where
  "GoogleSheetsConnector_init creds rlc t =
     (let c = BaseAPIConnector_init creds rlc t
      in c\<lparr>access_token := map_of creds ''access_token'',
            refresh_token := map_of creds ''refresh_token'',
            client_id := map_of creds ''client_id'',
            client_secret := map_of creds ''client_secret'',
            rate_limit_config :=
              setdefault ''min_request_interval'' 1000000
                (setdefault ''requests_per_100_seconds'' 100 (rate_limit_config c))\<rparr>)"

section \<open>Transport and vendor responses\<close>

text \<open>
  A parsed response body is modelled at the type the vendor documents for the keys the
  code reads, one constructor per endpoint; an absent key is \<open>None\<close>. A body of
  another endpoint's shape is read as an object without the keys asked for. Records and
  HubSpot property bags are JSON objects (association lists, in insertion order).
  \<open>json_body = None\<close> stands for a body that is not JSON: \<open>response.json()\<close>
  raises on it.
\<close>

record vfield =
  vf_name :: "string option"
  vf_type :: "string option"
  vf_label :: "jval option"
  vf_length :: "jval option"
  vf_nillable :: "jval option"
  vf_createable :: "jval option"
  vf_updateable :: "jval option"
  vf_fieldType :: "jval option"

datatype sobject =
  SObject (so_name: "string option") (so_queryable: bool) (so_customSetting: bool)

datatype hs_item = HsItem (item_properties: "jdict option") (item_id: "jval option")

datatype hs_paging = PagingNoNext | PagingNext "string option"

datatype hs_schema = HsSchema (schema_name: "string option") (schema_props: "vfield list option")

datatype report_row = Row (dimension_values: "string list") (metric_values: "string list")

datatype body =
    TokenBody "string option" "string option" "string option"
  | QueryBody "jdict list option" "string option"
  | SObjectsBody "sobject list option"
  | DescribeBody "vfield list option" "jval option" "jval option"
  | SearchBody "hs_item list option" "hs_paging option"
  | SchemasBody "hs_schema list option"
  | SchemaBody "vfield list option" "jval option" "jval option" "jval option"
  | ReportBody "string list" "string list" "report_row list"
  | OtherBody

datatype response = Response (status_code: nat) (json_body: "body option")

datatype outcome = Raises exn | Returns response

text \<open>
  The environment: what the \<open>n\<close>-th call handed to the transport (counting from 0
  over the life of the instance) does, given the request.
\<close>

type_synonym net = "nat \<Rightarrow> request \<Rightarrow> outcome"

definition send :: "net \<Rightarrow> request \<Rightarrow> connector \<Rightarrow> (exn + response) \<times> connector" where
  "send net rq c =
     (case net (length (sent c)) rq of
        Raises e \<Rightarrow> (Inl e, c\<lparr>sent := sent c @ [rq]\<rparr>)
      | Returns r \<Rightarrow> (Inr r, c\<lparr>sent := sent c @ [rq]\<rparr>))"

definition raises_for_status :: "response \<Rightarrow> bool" where
  "raises_for_status r = (400 \<le> status_code r \<and> status_code r < 600)"

text \<open>
  \<open>try: ... except Exception as e: handler\<close>: the handler runs on the state the
  body left behind.
\<close>

definition try_except ::
  "(exn + 'a) \<times> connector \<Rightarrow> (exn \<Rightarrow> connector \<Rightarrow> (exn + 'a) \<times> connector)
     \<Rightarrow> (exn + 'a) \<times> connector" where
  "try_except r handler = (case r of (Inl e, c) \<Rightarrow> handler e c | (Inr v, c) \<Rightarrow> (Inr v, c))"

text \<open>The keys of the token endpoint's body.\<close>

fun tok_access_token :: "body \<Rightarrow> string option" where
  "tok_access_token (TokenBody a r u) = a"
| "tok_access_token _ = None"

fun tok_refresh_token :: "body \<Rightarrow> string option" where
  "tok_refresh_token (TokenBody a r u) = r"
| "tok_refresh_token _ = None"

fun tok_instance_url :: "body \<Rightarrow> string option" where
  "tok_instance_url (TokenBody a r u) = u"
| "tok_instance_url _ = None"















section \<open>Salesforce connector (salesforce\_connector.py)\<close>

definition sf_get_auth_url :: "connector \<Rightarrow> string" where
  "sf_get_auth_url c =
     (if truthy (map_of (credentials c) ''sandbox'')
      then ''https://test.salesforce.com/services/oauth2/token''
      else ''https://login.salesforce.com/services/oauth2/token'')"

text \<open>
  \<open>authenticate\<close> and \<open>validate_connection\<close> call each other in the source:
  \<open>validate_connection\<close> calls \<open>authenticate\<close> only when the authentication type
  is the password flow, and \<open>authenticate\<close> calls \<open>validate_connection\<close> only when
  it is not. \<open>sf_password_grant\<close> is the body of \<open>authenticate\<close> for the password
  flow, \<open>sf_authenticate_password\<close> that body inside the method's \<open>try\<close>.
\<close>

definition sf_password_grant :: "net \<Rightarrow> connector \<Rightarrow> (exn + bool) \<times> connector" where
  "sf_password_grant net c =
     (case map_of (credentials c) ''username'' of
        None \<Rightarrow> (Inl (KeyError ''username''), c)
      | Some username \<Rightarrow>
     (case map_of (credentials c) ''password'' of
        None \<Rightarrow> (Inl (KeyError ''password''), c)
      | Some password \<Rightarrow>
        let pw = (case map_of (credentials c) ''security_token'' of
                    None \<Rightarrow> password | Some tok \<Rightarrow> password @ tok);
            payload = [(''grant_type'', JStr ''password''),
                       (''client_id'', jstr_opt (client_id c)),
                       (''client_secret'', jstr_opt (client_secret c)),
                       (''username'', JStr username),
                       (''password'', JStr pw)]
        in (case send net (Request ''POST'' (sf_get_auth_url c) payload) c of
              (Inl e, c1) \<Rightarrow> (Inl e, c1)
            | (Inr resp, c1) \<Rightarrow>
                if status_code resp = 200 then
                  (case json_body resp of
                     None \<Rightarrow> (Inl (RequestException ''JSONDecodeError''), c1)
                   | Some auth_data \<Rightarrow>
                       (case tok_access_token auth_data of
                          None \<Rightarrow> (Inl (KeyError ''access_token''), c1)
                        | Some tok \<Rightarrow>
                            (Inr True,
                             logmsg INFO ''Successfully authenticated with Salesforce''
                               (c1\<lparr>access_token := Some tok,
                                    instance_url :=
                                      (case tok_instance_url auth_data of
                                         None \<Rightarrow> instance_url c1 | Some u \<Rightarrow> Some u),
                                    authorization := Some (''Bearer '' @ tok)\<rparr>))))
                else (Inr False, logmsg ERROR ''Authentication failed'' c1))))"

definition sf_authenticate_password :: "net \<Rightarrow> connector \<Rightarrow> (exn + bool) \<times> connector" where
  "sf_authenticate_password net c =
     try_except (sf_password_grant net c)
       (\<lambda>e c'. (Inr False, logmsg ERROR ''Authentication error'' c'))"

definition sf_refresh_access_token :: "net \<Rightarrow> connector \<Rightarrow> (exn + body) \<times> connector" where
  "sf_refresh_access_token net c =
     (if \<not> truthy (refresh_token c) then
        (Inl (PlainException ''No refresh token available.''),
         logmsg ERROR ''No refresh token available to refresh the access token.'' c)
      else
        try_except
          (let payload = [(''grant_type'', JStr ''refresh_token''),
                          (''client_id'', jstr_opt (client_id c)),
                          (''client_secret'', jstr_opt (client_secret c)),
                          (''refresh_token'', jstr_opt (refresh_token c))]
           in (case send net (Request ''POST'' (sf_get_auth_url c) payload) c of
                 (Inl e, c1) \<Rightarrow> (Inl e, c1)
               | (Inr resp, c1) \<Rightarrow>
                   if raises_for_status resp then (Inl (RequestException ''HTTPError''), c1)
                   else
                     (case json_body resp of
                        None \<Rightarrow> (Inl (RequestException ''JSONDecodeError''), c1)
                      | Some auth_data \<Rightarrow>
                          (case tok_access_token auth_data of
                             None \<Rightarrow> (Inl (KeyError ''access_token''), c1)
                           | Some tok \<Rightarrow>
                               (Inr auth_data,
                                logmsg INFO ''Successfully refreshed Salesforce access token.''
                                  (c1\<lparr>access_token := Some tok,
                                       refresh_token :=
                                         (case tok_refresh_token auth_data of
                                            None \<Rightarrow> refresh_token c1 | Some r \<Rightarrow> Some r),
                                       authorization := Some (''Bearer '' @ tok)\<rparr>))))))
          (\<lambda>e c'. (Inl e, logmsg ERROR ''Error refreshing access token'' c')))"

text \<open>
  In the 401 branch the method returns what \<open>refresh_access_token\<close> returns, the
  token dictionary, which holds the key \<open>access_token\<close> and is therefore true as a
  condition.
\<close>

definition sf_validate_connection :: "net \<Rightarrow> connector \<Rightarrow> (exn + bool) \<times> connector" where
  "sf_validate_connection net c =
     (if \<not> truthy (access_token c) then
        (if auth_type c = Password then sf_authenticate_password net c
         else (Inr False, logmsg WARNING ''No access token present for connection validation.'' c))
      else
        try_except
          (case send net
                  (Request ''GET''
                     (str_opt (instance_url c) @ ''/services/data/v'' @ api_version c @ ''/sobjects'')
                     []) c of
             (Inl e, c1) \<Rightarrow> (Inl e, c1)
           | (Inr resp, c1) \<Rightarrow>
               if status_code resp = 200 then
                 (Inr True, logmsg INFO ''Connection to Salesforce is valid'' c1)
               else if status_code resp = 401 then
                 (let c2 = logmsg INFO
                             ''Access token may be expired, attempting to refresh/re-authenticate.'' c1
                  in if auth_type c2 = Token then
                       (case sf_refresh_access_token net c2 of
                          (Inl e, c3) \<Rightarrow> (Inl e, c3)
                        | (Inr auth_data, c3) \<Rightarrow> (Inr True, c3))
                     else if auth_type c2 = Password then sf_authenticate_password net c2
                     else (Inr False, c2))
               else (Inr False, logmsg ERROR ''Connection validation failed'' c1))
          (\<lambda>e c'. (Inr False, logmsg ERROR ''Connection validation error'' c')))"

definition sf_authenticate :: "net \<Rightarrow> connector \<Rightarrow> (exn + bool) \<times> connector" where
  "sf_authenticate net c =
     try_except
       (if auth_type c \<noteq> Password then
          sf_validate_connection net
            (logmsg ERROR
               ''Authenticate called for non-password credentials. Use token refresh instead.'' c)
        else sf_password_grant net c)
       (\<lambda>e c'. (Inr False, logmsg ERROR ''Authentication error'' c'))"

subsection \<open>fetch\_data\<close>










subsection \<open>fetch\_schema and list\_objects\<close>









section \<open>HubSpot connector (hubspot\_connector.py)\<close>

definition api_base_url :: string where
  "api_base_url = ''https://api.hubapi.com''"

text \<open>
  \<open>refresh_access_token\<close> of this module returns a boolean. Its handler is
  \<open>except requests.exceptions.RequestException\<close>: any other exception raised in the
  body leaves the method.
\<close>

definition hs_refresh_body :: "net \<Rightarrow> connector \<Rightarrow> (exn + bool) \<times> connector" where
  "hs_refresh_body net c =
     (case map_of (credentials c) ''client_id'' of
        None \<Rightarrow> (Inl (KeyError ''client_id''), c)
      | Some cid \<Rightarrow>
     (case map_of (credentials c) ''client_secret'' of
        None \<Rightarrow> (Inl (KeyError ''client_secret''), c)
      | Some secret \<Rightarrow>
        let payload = [(''grant_type'', JStr ''refresh_token''),
                       (''client_id'', JStr cid),
                       (''client_secret'', JStr secret),
                       (''refresh_token'', jstr_opt (refresh_token c))]
        in (case send net (Request ''POST'' (api_base_url @ ''/oauth/v1/token'') payload) c of
              (Inl e, c1) \<Rightarrow> (Inl e, c1)
            | (Inr resp, c1) \<Rightarrow>
                if raises_for_status resp then (Inl (RequestException ''HTTPError''), c1)
                else
                  (case json_body resp of
                     None \<Rightarrow> (Inl (RequestException ''JSONDecodeError''), c1)
                   | Some auth_data \<Rightarrow>
                       (case tok_access_token auth_data of
                          None \<Rightarrow> (Inl (KeyError ''access_token''), c1)
                        | Some tok \<Rightarrow>
                            (Inr True,
                             logmsg INFO ''Successfully refreshed HubSpot access token.''
                               (c1\<lparr>access_token := Some tok,
                                    refresh_token :=
                                      (case tok_refresh_token auth_data of
                                         None \<Rightarrow> refresh_token c1 | Some r \<Rightarrow> Some r),
                                    authorization := Some (''Bearer '' @ tok)\<rparr>)))))))"

definition hs_refresh_access_token :: "net \<Rightarrow> connector \<Rightarrow> (exn + bool) \<times> connector" where
  "hs_refresh_access_token net c =
     (if \<not> truthy (refresh_token c) then
        (Inr False, logmsg ERROR ''No refresh token available to refresh the access token.'' c)
      else
        (case hs_refresh_body net c of
           (Inl (RequestException m), c1) \<Rightarrow>
             (Inr False, logmsg ERROR ''Error refreshing access token'' c1)
         | r \<Rightarrow> r))"

definition hs_validate_connection :: "net \<Rightarrow> connector \<Rightarrow> (exn + bool) \<times> connector" where
  "hs_validate_connection net c =
     (if \<not> truthy (access_token c) then
        (Inr False, logmsg WARNING ''No access token present for connection validation.'' c)
      else
        try_except
          (case send net (Request ''GET'' (api_base_url @ ''/account-info/v3/details'') []) c of
             (Inl e, c1) \<Rightarrow> (Inl e, c1)
           | (Inr resp, c1) \<Rightarrow>
               if status_code resp = 200 then
                 (Inr True, logmsg INFO ''Connection to HubSpot is valid.'' c1)
               else if status_code resp = 401 then
                 hs_refresh_access_token net
                   (logmsg INFO ''HubSpot access token may be expired, attempting to refresh.'' c1)
               else (Inr False, logmsg ERROR ''Connection validation failed'' c1))
          (\<lambda>e c'. (Inr False, logmsg ERROR ''Connection validation error'' c')))"

definition hs_authenticate :: "net \<Rightarrow> connector \<Rightarrow> (exn + bool) \<times> connector" where
  "hs_authenticate net c = hs_validate_connection net c"

subsection \<open>fetch\_data\<close>





subsection \<open>fetch\_schema and list\_objects\<close>








section \<open>GA4 connector (ga4\_connector.py)\<close>













section \<open>Google Ads and Google Sheets connectors: validation and the guard of fetch\_data\<close>







section \<open>Concrete instances and environments used in the worked examples\<close>






section \<open>Registry resolution\<close>

lemmas lower_defs = lower_def lower_char_def is_upper_def upper_letters_def lower_letters_def

lemma lower_char_fix: "\<not> is_upper a \<Longrightarrow> lower_char a = a"
  unfolding lower_defs by (auto split: option.splits if_splits)

lemma case_variant_iff: "\<not> is_upper b \<Longrightarrow> case_variant a b \<longleftrightarrow> lower_char a = b"
  unfolding case_variant_def using lower_char_fix by (cases "is_upper a") auto

lemma casing_of_iff: "\<forall>c\<in>set v. \<not> is_upper c \<Longrightarrow> casing_of s v \<longleftrightarrow> lower s = v"
  unfolding casing_of_def lower_def
proof (induction v arbitrary: s)
  case Nil
  then show ?case by simp
next
  case (Cons b v)
  then show ?case by (cases s) (auto simp: case_variant_iff)
qed

lemma registry_lower:
  "(v, cls) \<in> set (CONNECTOR_REGISTRY True) \<Longrightarrow> \<forall>c\<in>set v. \<not> is_upper c"
  unfolding CONNECTOR_REGISTRY_def is_upper_def upper_letters_def by auto

lemma registry_distinct: "distinct (map fst (CONNECTOR_REGISTRY True))"
  unfolding CONNECTOR_REGISTRY_def by simp

text \<open>
  Claim C3. With the vendor modules loaded, \<open>get_connector\<close> returns the class
  registered under an identifier for every letter casing \<open>s\<close> of that identifier, and
  fails with the "Unsupported connector type" error for every string that is a casing
  of no registered identifier. With the modules not loaded it fails, for every string,
  with the "registry is not available" error, which differs from every
  unsupported-type error. Both failures are Python \<open>ValueError\<close>s; they are told
  apart by their messages.
\<close>

theorem registry_resolution:
  "((v, cls) \<in> set (CONNECTOR_REGISTRY True) \<and> casing_of s v
      \<longrightarrow> get_connector True s = Inr cls)
   \<and> ((\<forall>v cls. (v, cls) \<in> set (CONNECTOR_REGISTRY True) \<longrightarrow> \<not> casing_of s v)
      \<longrightarrow> get_connector True s = Inl (ValueError (''Unsupported connector type: '' @ s)))
   \<and> get_connector False s
        = Inl (ValueError ''Connector registry is not available due to import errors.'')
   \<and> get_connector False s \<noteq> Inl (ValueError (''Unsupported connector type: '' @ t))"
proof (intro conjI impI)
  assume a: "(v, cls) \<in> set (CONNECTOR_REGISTRY True) \<and> casing_of s v"
  then have "lower s = v" using registry_lower casing_of_iff by blast
  moreover have "map_of (CONNECTOR_REGISTRY True) v = Some cls"
    using a registry_distinct by simp
  ultimately show "get_connector True s = Inr cls"
    by (simp add: get_connector_def)
next
  assume a: "\<forall>v cls. (v, cls) \<in> set (CONNECTOR_REGISTRY True) \<longrightarrow> \<not> casing_of s v"
  have "map_of (CONNECTOR_REGISTRY True) (lower s) = None"
  proof (cases "map_of (CONNECTOR_REGISTRY True) (lower s)")
    case None
    then show ?thesis .
  next
    case (Some cls)
    then have m: "(lower s, cls) \<in> set (CONNECTOR_REGISTRY True)" by (rule map_of_SomeD)
    then have "casing_of s (lower s)" using registry_lower casing_of_iff by blast
    with a m show ?thesis by blast
  qed
  then show "get_connector True s = Inl (ValueError (''Unsupported connector type: '' @ s))"
    by (simp add: get_connector_def)
next
  show "get_connector False s
        = Inl (ValueError ''Connector registry is not available due to import errors.'')"
    by (simp add: get_connector_def)
next
  show "get_connector False s \<noteq> Inl (ValueError (''Unsupported connector type: '' @ t))"
    by (simp add: get_connector_def)
qed

theorem registry_resolution_witness:
  "((''hubspot'', HubspotConnector) \<in> set (CONNECTOR_REGISTRY True)
      \<and> casing_of ''HubSpot'' ''hubspot'')
   \<and> get_connector True ''HubSpot'' = Inr HubspotConnector
   \<and> \<not> (\<exists>v cls. (v, cls) \<in> set (CONNECTOR_REGISTRY True) \<and> casing_of ''oracle'' v)
   \<and> get_connector True ''oracle'' = Inl (ValueError ''Unsupported connector type: oracle'')"
proof -
  have h1: "(''hubspot'', HubspotConnector) \<in> set (CONNECTOR_REGISTRY True)
              \<and> casing_of ''HubSpot'' ''hubspot''"
    by (simp add: CONNECTOR_REGISTRY_def casing_of_def case_variant_def lower_defs)
  have h2: "\<forall>v cls. (v, cls) \<in> set (CONNECTOR_REGISTRY True) \<longrightarrow> \<not> casing_of ''oracle'' v"
    by (simp add: CONNECTOR_REGISTRY_def casing_of_def case_variant_def lower_defs)
  from h1 h2
    registry_resolution [of "''hubspot''" HubspotConnector "''HubSpot''"]
    registry_resolution [of _ _ "''oracle''"]
  show ?thesis by auto
qed

section \<open>Rate limiting\<close>

lemmas rl_defs = sf_handle_rate_limits_def hs_handle_rate_limits_def spacing_step_def
  ga4_handle_rate_limits_def gads_handle_rate_limits_def gs_handle_rate_limits_def
  cfg_get_def sleep_def logmsg_def elapse_def Let_def

lemmas init_defs = BaseAPIConnector_init_def SalesforceConnector_init_def
  HubspotConnector_init_def GA4Connector_init_def GoogleAdsConnector_init_def
  GoogleSheetsConnector_init_def has_key_def truthy_def str_opt_def startswith_def
  setdefault_def

lemma sf_count_step:
  "request_count c < 100 \<Longrightarrow> request_count (sf_handle_rate_limits c) = Suc (request_count c)"
  by (auto simp: rl_defs split: option.splits)

lemma sf_last_step:
  "request_count c < 100 \<Longrightarrow>
     last_request_time (sf_handle_rate_limits c) = Some (now (sf_handle_rate_limits c))"
  by (auto simp: rl_defs split: option.splits)

lemma sf_count_funpow:
  "request_count c = 0 \<Longrightarrow> n \<le> 100 \<Longrightarrow> request_count ((sf_handle_rate_limits ^^ n) c) = n"
  by (induction n) (auto simp: sf_count_step)

lemma sf_last_funpow:
  "request_count c = 0 \<Longrightarrow> 0 < n \<Longrightarrow> n \<le> 100 \<Longrightarrow>
     last_request_time ((sf_handle_rate_limits ^^ n) c)
       = Some (now ((sf_handle_rate_limits ^^ n) c))"
  by (cases n) (auto simp: sf_count_funpow sf_last_step)

lemma sf_after_reset:
  assumes "request_count c = 100" "last_request_time c = Some (now c)"
  shows "now (sf_handle_rate_limits (sf_handle_rate_limits c)) = now (sf_handle_rate_limits c)"
    and "now (sf_handle_rate_limits c) = now c + 5000000"
  using assms by (auto simp: rl_defs)




text \<open>
  Claim C7 (minimum spacing). The claim asks that two consecutive invocations of
  \<open>handle_rate_limits\<close> of one instance complete at least the minimum interval
  apart. Evaluated on the code: a GA4 instance built with the default interval of
  100000 microseconds, invoked three times with one microsecond of caller time between
  the invocations, completes its second call at 100000 and its third at 100001, one
  microsecond later, because the second call stores the clock reading taken before its
  sleep. A Salesforce instance, after its first hundred calls, sleeps five seconds in
  the 101st call without recording the time, and its 102nd call completes at the same
  clock reading as the 101st.
\<close>

theorem min_spacing_violated:
  "(let c1 = ga4_handle_rate_limits (GA4Connector_init [] None 0);
        c2 = ga4_handle_rate_limits (elapse 1 c1);
        c3 = ga4_handle_rate_limits (elapse 1 c2)
    in cfg_get c1 ''min_request_interval'' 0 = 100000
       \<and> now c1 = 0 \<and> now c2 = 100000 \<and> now c3 - now c2 = 1)
   \<and> (let c100 = (sf_handle_rate_limits ^^ 100) (SalesforceConnector_init [] None None None 0);
           c101 = sf_handle_rate_limits c100;
           c102 = sf_handle_rate_limits c101
       in now c101 = now c100 + 5000000 \<and> now c102 - now c101 = 0)"
proof -
  let ?c = "SalesforceConnector_init [] None None None 0"
  have z: "request_count ?c = 0" by (simp add: init_defs)
  have a: "request_count ((sf_handle_rate_limits ^^ 100) ?c) = 100"
    using sf_count_funpow [OF z, of 100] by simp
  have b: "last_request_time ((sf_handle_rate_limits ^^ 100) ?c)
             = Some (now ((sf_handle_rate_limits ^^ 100) ?c))"
    using sf_last_funpow [OF z, of 100] by simp
  have sf: "let c100 = (sf_handle_rate_limits ^^ 100) ?c;
                c101 = sf_handle_rate_limits c100;
                c102 = sf_handle_rate_limits c101
            in now c101 = now c100 + 5000000 \<and> now c102 - now c101 = 0"
    using sf_after_reset [OF a b] by (simp add: Let_def)
  have ga: "let c1 = ga4_handle_rate_limits (GA4Connector_init [] None 0);
                c2 = ga4_handle_rate_limits (elapse 1 c1);
                c3 = ga4_handle_rate_limits (elapse 1 c2)
            in cfg_get c1 ''min_request_interval'' 0 = 100000
               \<and> now c1 = 0 \<and> now c2 = 100000 \<and> now c3 - now c2 = 1"
    by (simp add: init_defs rl_defs)
  from ga sf show ?thesis by blast
qed




section \<open>Failures do not leave the operations\<close>




















lemma sent_logmsg [simp]: "sent (logmsg l m c) = sent c"
  by (simp add: logmsg_def)

lemma sent_sf_handle_rate_limits [simp]: "sent (sf_handle_rate_limits c) = sent c"
  by (auto simp: rl_defs split: option.splits)

lemma sent_hs_handle_rate_limits [simp]: "sent (hs_handle_rate_limits c) = sent c"
  by (simp add: rl_defs)

lemma sent_ga4_handle_rate_limits [simp]: "sent (ga4_handle_rate_limits c) = sent c"
  by (auto simp: rl_defs split: option.splits)












end
